theory Spec2Isabelle
  imports Complex_Main "HOL-Library.Word"
begin

section \<open>Values and the workflow state (src/langgraph/workflow.py, class ResearchState)\<close>

text \<open>
  Python values held in the untyped containers of the state (\<open>Dict\<close>, \<open>List[Dict]\<close>,
  \<open>Dict[str, Any]\<close>). A dict is an association list in insertion order.
\<close>

datatype pyval =
    PNone
  | PBool bool
  | PInt int
  | PStr string
  | PList "pyval list"
  | PDict "(string \<times> pyval) list"

type_synonym pydict = "(string \<times> pyval) list"

text \<open>A UUID is a 128-bit value.\<close>

type_synonym uuid = "128 word"

text \<open>
  The two message classes the workflow constructs (\<open>HumanMessage(content=...)\<close>,
  \<open>AIMessage(content=...)\<close>), both subclasses of \<open>BaseMessage\<close>.
\<close>

datatype message = HumanMessage string | AIMessage string

record research_state =
  job_id :: uuid
  query :: string
  constraints :: pydict
  output_config :: pydict
  messages :: "message list"
  sources :: "pyval list"
  claims :: "pyval list"
  citations :: "pyval list"
  artifacts :: "pyval list"
  current_node :: string
  errors :: "string list"
  metadata :: pydict

text \<open>
  \<open>x or {}\<close> for an optional dict argument: \<open>None\<close> and the empty dict are falsy and
  give a new empty dict, any other dict is kept.
\<close>

definition or_empty :: "pydict option \<Rightarrow> pydict" where
  "or_empty d = (case d of None \<Rightarrow> [] | Some x \<Rightarrow> (if x = [] then [] else x))"

text \<open>\<open>ResearchState.__init__\<close>.\<close>

definition ResearchState ::
  "uuid \<Rightarrow> string \<Rightarrow> pydict option \<Rightarrow> pydict option \<Rightarrow> research_state" where
  "ResearchState jid q cs oc =
     \<lparr> job_id = jid, query = q, constraints = or_empty cs, output_config = or_empty oc,
       messages = [], sources = [], claims = [], citations = [], artifacts = [],
       current_node = ''start'', errors = [], metadata = [] \<rparr>"

subsection \<open>Serialisation\<close>

text \<open>
  \<open>to_dict\<close> and \<open>from_dict\<close> call four library functions that are not part of the
  repository: \<open>str\<close> on a UUID, the \<open>UUID\<close> constructor on a string, \<open>msg.dict()\<close> and
  \<open>BaseMessage.parse_obj\<close>. They are parameters of the model, collected in a record.
  The two parsers can raise; \<open>None\<close> stands for that.
\<close>

record codec =
  uuid_str :: "uuid \<Rightarrow> string"
  uuid_parse :: "string \<Rightarrow> uuid option"
  msg_dict :: "message \<Rightarrow> pyval"
  parse_obj :: "pyval \<Rightarrow> message option"

definition to_dict :: "codec \<Rightarrow> research_state \<Rightarrow> pydict" where
  "to_dict cd s =
     [ (''job_id'', PStr (uuid_str cd (job_id s))),
       (''query'', PStr (query s)),
       (''constraints'', PDict (constraints s)),
       (''output_config'', PDict (output_config s)),
       (''messages'', PList (map (msg_dict cd) (messages s))),
       (''sources'', PList (sources s)),
       (''claims'', PList (claims s)),
       (''citations'', PList (citations s)),
       (''artifacts'', PList (artifacts s)),
       (''current_node'', PStr (current_node s)),
       (''errors'', PList (map PStr (errors s))),
       (''metadata'', PDict (metadata s)) ]"

text \<open>
  What reading a dict back can raise. Python stores whatever value sits under a key
  without a check; the record above is typed by the class's annotations, so a value of
  another shape than the annotation is reported as \<open>IllTyped\<close> with the key.
\<close>

datatype load_error = KeyError string | ValueError string | IllTyped string

text \<open>\<open>data[k]\<close>: a missing key raises.\<close>

definition dict_item :: "pydict \<Rightarrow> string \<Rightarrow> load_error + pyval" where
  "dict_item data k = (case map_of data k of None \<Rightarrow> Inl (KeyError k) | Some v \<Rightarrow> Inr v)"

text \<open>\<open>data.get(k, default)\<close>.\<close>

definition dict_get :: "pydict \<Rightarrow> string \<Rightarrow> pyval \<Rightarrow> pyval" where
  "dict_get data k dflt = (case map_of data k of None \<Rightarrow> dflt | Some v \<Rightarrow> v)"

fun as_str :: "string \<Rightarrow> pyval \<Rightarrow> load_error + string" where
  "as_str k (PStr s) = Inr s"
| "as_str k v = Inl (IllTyped k)"

fun as_dict :: "string \<Rightarrow> pyval \<Rightarrow> load_error + pydict" where
  "as_dict k (PDict d) = Inr d"
| "as_dict k v = Inl (IllTyped k)"

fun as_list :: "string \<Rightarrow> pyval \<Rightarrow> load_error + pyval list" where
  "as_list k (PList xs) = Inr xs"
| "as_list k v = Inl (IllTyped k)"

text \<open>Applies a fallible function to each element, stopping at the first failure.\<close>

fun map_result :: "('a \<Rightarrow> 'e + 'b) \<Rightarrow> 'a list \<Rightarrow> 'e + 'b list" where
  "map_result f [] = Inr []"
| "map_result f (x # xs) =
     (case f x of
        Inl e \<Rightarrow> Inl e
      | Inr y \<Rightarrow> (case map_result f xs of Inl e \<Rightarrow> Inl e | Inr ys \<Rightarrow> Inr (y # ys)))"

definition parse_message :: "codec \<Rightarrow> pyval \<Rightarrow> load_error + message" where
  "parse_message cd v =
     (case parse_obj cd v of None \<Rightarrow> Inl (ValueError ''messages'') | Some m \<Rightarrow> Inr m)"

definition parse_uuid :: "codec \<Rightarrow> string \<Rightarrow> load_error + uuid" where
  "parse_uuid cd s =
     (case uuid_parse cd s of None \<Rightarrow> Inl (ValueError ''job_id'') | Some u \<Rightarrow> Inr u)"

text \<open>Sequencing of fallible steps: the first error is the result.\<close>

definition bind_result :: "'e + 'a \<Rightarrow> ('a \<Rightarrow> 'e + 'b) \<Rightarrow> 'e + 'b" where
  "bind_result r f = (case r of Inl e \<Rightarrow> Inl e | Inr x \<Rightarrow> f x)"

text \<open>
  \<open>ResearchState.from_dict\<close>: \<open>job_id\<close> and \<open>query\<close> are read with \<open>data[...]\<close>, every
  other key with \<open>data.get(..., default)\<close>; the constructor receives the two dicts and
  applies \<open>or {}\<close> to them; the remaining fields are assigned afterwards, in the order
  of the source.
\<close>

definition from_dict :: "codec \<Rightarrow> pydict \<Rightarrow> load_error + research_state" where
  "from_dict cd data =
     bind_result (dict_item data ''job_id'') (\<lambda>jv.
     bind_result (as_str ''job_id'' jv) (\<lambda>js.
     bind_result (parse_uuid cd js) (\<lambda>jid.
     bind_result (dict_item data ''query'') (\<lambda>qv.
     bind_result (as_str ''query'' qv) (\<lambda>q.
     bind_result (as_dict ''constraints'' (dict_get data ''constraints'' (PDict []))) (\<lambda>cs.
     bind_result (as_dict ''output_config'' (dict_get data ''output_config'' (PDict []))) (\<lambda>oc.
     bind_result (as_list ''messages'' (dict_get data ''messages'' (PList []))) (\<lambda>mvs.
     bind_result (map_result (parse_message cd) mvs) (\<lambda>ms.
     bind_result (as_list ''sources'' (dict_get data ''sources'' (PList []))) (\<lambda>srcs.
     bind_result (as_list ''claims'' (dict_get data ''claims'' (PList []))) (\<lambda>cls.
     bind_result (as_list ''citations'' (dict_get data ''citations'' (PList []))) (\<lambda>cits.
     bind_result (as_list ''artifacts'' (dict_get data ''artifacts'' (PList []))) (\<lambda>arts.
     bind_result (as_str ''current_node'' (dict_get data ''current_node'' (PStr ''start''))) (\<lambda>cn.
     bind_result (as_list ''errors'' (dict_get data ''errors'' (PList []))) (\<lambda>evs.
     bind_result (map_result (as_str ''errors'') evs) (\<lambda>es.
     bind_result (as_dict ''metadata'' (dict_get data ''metadata'' (PDict []))) (\<lambda>md.
       Inr ((ResearchState jid q (Some cs) (Some oc))
              \<lparr> messages := ms, sources := srcs, claims := cls, citations := cits,
                artifacts := arts, current_node := cn, errors := es,
                metadata := md \<rparr>))))))))))))))))))"

text \<open>A small codec for evaluating the model on concrete states.\<close>

fun sample_msg_dict :: "message \<Rightarrow> pyval" where
  "sample_msg_dict (HumanMessage c) = PDict [(''content'', PStr c), (''type'', PStr ''human'')]"
| "sample_msg_dict (AIMessage c) = PDict [(''content'', PStr c), (''type'', PStr ''ai'')]"

fun sample_parse_obj :: "pyval \<Rightarrow> message option" where
  "sample_parse_obj (PDict [(k1, PStr c), (k2, PStr t)]) =
     (if k1 = ''content'' \<and> k2 = ''type'' then
        (if t = ''human'' then Some (HumanMessage c)
         else if t = ''ai'' then Some (AIMessage c) else None)
      else None)"
| "sample_parse_obj v = None"

text \<open>The sample codec knows the nil UUID only.\<close>

definition sample_uuid_str :: "uuid \<Rightarrow> string" where
  "sample_uuid_str u =
     (if u = 0 then ''00000000-0000-0000-0000-000000000000'' else ''unknown'')"

definition sample_uuid_parse :: "string \<Rightarrow> uuid option" where
  "sample_uuid_parse s =
     (if s = ''00000000-0000-0000-0000-000000000000'' then Some 0 else None)"

definition sample_codec :: codec where
  "sample_codec = \<lparr> uuid_str = sample_uuid_str, uuid_parse = sample_uuid_parse,
                    msg_dict = sample_msg_dict, parse_obj = sample_parse_obj \<rparr>"

section \<open>The workflow (src/langgraph/workflow.py, class ResearchWorkflow)\<close>

text \<open>
  Modelled from the spec: the enum \<open>JobStatus\<close> (imported from \<open>app.models.job\<close>, which
  is not under src/). Its members are the job statuses the spec lists; the source uses
  \<open>PLANNING\<close> to \<open>COMPLETED\<close> and \<open>FAILED\<close>.
\<close>

datatype job_status =
    CREATED | QUEUED | PLANNING | RETRIEVING | SYNTHESIZING | DRAFTING | FACT_CHECKING
  | VISUALIZING | REVIEWING | AWAITING_HUMAN | FORMATTING | COMPLETED | FAILED
  | CANCELLING | CANCELLED | RETRYING

text \<open>
  A call that can raise: \<open>Inl\<close> carries \<open>str(e)\<close> of the exception, \<open>Inr\<close> the value
  returned.
\<close>

type_synonym 'a outcome = "string + 'a"

text \<open>
  The awaited calls of the node functions. The services (\<open>JobService\<close>,
  \<open>RetrievalService\<close>, ...) are not part of the source, so each call is a parameter,
  with the arguments the source passes. The source's own \<open>_quality_check\<close> and
  \<open>_wait_for_human_approval\<close> are placeholders with a fixed result; they are fields here
  as well, so that a property can be stated for every score and every decision, and
  \<open>stub_quality_check\<close> and \<open>stub_wait_for_human_approval\<close> below are the source's bodies.
  A quality score is a Python float; the model compares its value as a real number.
\<close>

record services =
  update_job_status :: "uuid \<Rightarrow> job_status \<Rightarrow> unit outcome"
  retrieve_sources :: "string \<Rightarrow> pyval option \<Rightarrow> pydict \<Rightarrow> pyval list outcome"
  synthesize_evidence :: "pyval list \<Rightarrow> string \<Rightarrow> pyval list outcome"
  create_draft :: "pyval list \<Rightarrow> pyval list \<Rightarrow> pydict \<Rightarrow> pyval outcome"
  verify_claims :: "pyval list \<Rightarrow> pyval list \<Rightarrow> (pyval list \<times> pyval list) outcome"
  create_visualizations :: "pyval list \<Rightarrow> pyval list \<Rightarrow> pyval list outcome"
  generate_report ::
    "pyval option \<Rightarrow> pyval list \<Rightarrow> pyval list \<Rightarrow> pyval list \<Rightarrow> pydict \<Rightarrow> pyval outcome"
  quality_check :: "research_state \<Rightarrow> real outcome"
  wait_for_human_approval :: "uuid \<Rightarrow> string outcome"

definition stub_quality_check :: "research_state \<Rightarrow> real outcome" where
  "stub_quality_check st = Inr 0.85"

definition stub_wait_for_human_approval :: "uuid \<Rightarrow> string outcome" where
  "stub_wait_for_human_approval jid = Inr ''approve''"

text \<open>\<open>d[k] = v\<close> on a dict: an existing key keeps its place, a new key goes last.\<close>

fun dict_set :: "string \<Rightarrow> pyval \<Rightarrow> pydict \<Rightarrow> pydict" where
  "dict_set k v [] = [(k, v)]"
| "dict_set k v ((k', v') # d) = (if k' = k then (k, v) # d else (k', v') # dict_set k v d)"

text \<open>\<open>_create_research_plan\<close>.\<close>

definition create_research_plan :: "string \<Rightarrow> pydict \<Rightarrow> pydict" where
  "create_research_plan q cs =
     [ (''summary'', PStr (''Research plan for: '' @ q)),
       (''sub_questions'', PList []),
       (''sources'', PList []),
       (''timeline'', PStr ''2-3 hours'') ]"

text \<open>
  What a node function hands back. Every node mutates the state object it was given;
  most return that object, the two gate nodes return a string on their normal path.
\<close>

datatype node_return = ReturnsState | ReturnsStr string

text \<open>
  The effect of one node call: what it returned, the state object after the call, and
  the status updates that \<open>update_job_status\<close> accepted during the call, in order.
\<close>

record node_out =
  returned :: node_return
  state_after :: research_state
  issued :: "job_status list"

text \<open>
  The \<open>except Exception as e\<close> branch every node has: the message goes to the
  state's errors, the current node becomes \<open>"error"\<close>, the state is returned.
\<close>

definition node_failed :: "string \<Rightarrow> string \<Rightarrow> research_state \<Rightarrow> job_status list \<Rightarrow> node_out" where
  "node_failed label e st done =
     \<lparr> returned = ReturnsState,
       state_after = st\<lparr> errors := errors st @ [label @ e], current_node := ''error'' \<rparr>,
       issued = done \<rparr>"

text \<open>
  \<open>_query_understanding_node\<close>. The second message reads \<open>plan['summary']\<close>, which
  raises on a missing key, after the plan, the current node and the first message have
  been stored. The plan of \<open>_create_research_plan\<close> always has a string there; the
  model takes any other plan through the raising branch.
\<close>

definition query_understanding_node :: "services \<Rightarrow> research_state \<Rightarrow> node_out" where
  "query_understanding_node sv st =
     (case update_job_status sv (job_id st) PLANNING of
        Inl e \<Rightarrow> node_failed ''Query understanding failed: '' e st []
      | Inr u \<Rightarrow>
          (let plan = create_research_plan (query st) (constraints st);
               st1 = st\<lparr> metadata := dict_set ''research_plan'' (PDict plan) (metadata st),
                         current_node := ''query_understanding'' \<rparr>;
               st2 = st1\<lparr> messages := messages st1 @ [HumanMessage (query st1)] \<rparr>
           in (case map_of plan ''summary'' of
                 Some (PStr summary) \<Rightarrow>
                   \<lparr> returned = ReturnsState,
                     state_after = st2\<lparr> messages := messages st2 @
                        [AIMessage (''Research plan created: '' @ summary)] \<rparr>,
                     issued = [PLANNING] \<rparr>
               | _ \<Rightarrow> node_failed ''Query understanding failed: ''
                     ([CHR 0x27] @ ''summary'' @ [CHR 0x27]) st2 [PLANNING])))"

text \<open>\<open>_retrieval_hub_node\<close>.\<close>

definition retrieval_hub_node :: "services \<Rightarrow> research_state \<Rightarrow> node_out" where
  "retrieval_hub_node sv st =
     (case update_job_status sv (job_id st) RETRIEVING of
        Inl e \<Rightarrow> node_failed ''Retrieval failed: '' e st []
      | Inr u \<Rightarrow>
          (case retrieve_sources sv (query st) (map_of (metadata st) ''research_plan'')
                  (constraints st) of
             Inl e \<Rightarrow> node_failed ''Retrieval failed: '' e st [RETRIEVING]
           | Inr srcs \<Rightarrow>
               \<lparr> returned = ReturnsState,
                 state_after = st\<lparr> sources := srcs, current_node := ''retrieval_hub'' \<rparr>,
                 issued = [RETRIEVING] \<rparr>))"

text \<open>\<open>_evidence_synthesis_node\<close>.\<close>

definition evidence_synthesis_node :: "services \<Rightarrow> research_state \<Rightarrow> node_out" where
  "evidence_synthesis_node sv st =
     (case update_job_status sv (job_id st) SYNTHESIZING of
        Inl e \<Rightarrow> node_failed ''Evidence synthesis failed: '' e st []
      | Inr u \<Rightarrow>
          (case synthesize_evidence sv (sources st) (query st) of
             Inl e \<Rightarrow> node_failed ''Evidence synthesis failed: '' e st [SYNTHESIZING]
           | Inr cls \<Rightarrow>
               \<lparr> returned = ReturnsState,
                 state_after = st\<lparr> claims := cls, current_node := ''evidence_synthesis'' \<rparr>,
                 issued = [SYNTHESIZING] \<rparr>))"

text \<open>\<open>_drafting_node\<close>.\<close>

definition drafting_node :: "services \<Rightarrow> research_state \<Rightarrow> node_out" where
  "drafting_node sv st =
     (case update_job_status sv (job_id st) DRAFTING of
        Inl e \<Rightarrow> node_failed ''Drafting failed: '' e st []
      | Inr u \<Rightarrow>
          (case create_draft sv (claims st) (sources st) (output_config st) of
             Inl e \<Rightarrow> node_failed ''Drafting failed: '' e st [DRAFTING]
           | Inr draft \<Rightarrow>
               \<lparr> returned = ReturnsState,
                 state_after = st\<lparr> metadata := dict_set ''draft'' draft (metadata st),
                                   current_node := ''drafting'' \<rparr>,
                 issued = [DRAFTING] \<rparr>))"

text \<open>\<open>_fact_checking_node\<close>.\<close>

definition fact_checking_node :: "services \<Rightarrow> research_state \<Rightarrow> node_out" where
  "fact_checking_node sv st =
     (case update_job_status sv (job_id st) FACT_CHECKING of
        Inl e \<Rightarrow> node_failed ''Fact checking failed: '' e st []
      | Inr u \<Rightarrow>
          (case verify_claims sv (claims st) (sources st) of
             Inl e \<Rightarrow> node_failed ''Fact checking failed: '' e st [FACT_CHECKING]
           | Inr (verified, cits) \<Rightarrow>
               \<lparr> returned = ReturnsState,
                 state_after = st\<lparr> claims := verified, citations := cits,
                                   current_node := ''fact_checking'' \<rparr>,
                 issued = [FACT_CHECKING] \<rparr>))"

text \<open>\<open>_visualization_node\<close>.\<close>

definition visualization_node :: "services \<Rightarrow> research_state \<Rightarrow> node_out" where
  "visualization_node sv st =
     (case update_job_status sv (job_id st) VISUALIZING of
        Inl e \<Rightarrow> node_failed ''Visualization failed: '' e st []
      | Inr u \<Rightarrow>
          (case create_visualizations sv (claims st) (sources st) of
             Inl e \<Rightarrow> node_failed ''Visualization failed: '' e st [VISUALIZING]
           | Inr vis \<Rightarrow>
               \<lparr> returned = ReturnsState,
                 state_after = st\<lparr> artifacts := artifacts st @ vis,
                                   current_node := ''visualization'' \<rparr>,
                 issued = [VISUALIZING] \<rparr>))"

text \<open>The verdict \<open>_review_gate_node\<close> computes from the quality score.\<close>

definition review_verdict :: "real \<Rightarrow> string" where
  "review_verdict quality_score =
     (if quality_score \<ge> 0.8 then ''approve''
      else if quality_score \<ge> 0.6 then ''request_changes''
      else ''human_review'')"

text \<open>
  \<open>_review_gate_node\<close>: on its normal path it returns the verdict string and assigns
  nothing to the state.
\<close>

definition review_gate_node :: "services \<Rightarrow> research_state \<Rightarrow> node_out" where
  "review_gate_node sv st =
     (case update_job_status sv (job_id st) REVIEWING of
        Inl e \<Rightarrow> node_failed ''Review gate failed: '' e st []
      | Inr u \<Rightarrow>
          (case quality_check sv st of
             Inl e \<Rightarrow> node_failed ''Review gate failed: '' e st [REVIEWING]
           | Inr quality_score \<Rightarrow>
               \<lparr> returned = ReturnsStr (review_verdict quality_score),
                 state_after = st,
                 issued = [REVIEWING] \<rparr>))"

text \<open>\<open>_human_approval_node\<close>.\<close>

definition human_approval_node :: "services \<Rightarrow> research_state \<Rightarrow> node_out" where
  "human_approval_node sv st =
     (case wait_for_human_approval sv (job_id st) of
        Inl e \<Rightarrow> node_failed ''Human approval failed: '' e st []
      | Inr approval \<Rightarrow>
          \<lparr> returned = ReturnsStr (if approval = ''approve'' then ''approve''
                                   else ''request_changes''),
            state_after = st,
            issued = [] \<rparr>)"

text \<open>
  \<open>_formatting_node\<close>. The report is appended and the current node set before the
  job is marked completed; if that last update raises, both assignments stay.
\<close>

definition formatting_node :: "services \<Rightarrow> research_state \<Rightarrow> node_out" where
  "formatting_node sv st =
     (case update_job_status sv (job_id st) FORMATTING of
        Inl e \<Rightarrow> node_failed ''Formatting failed: '' e st []
      | Inr u \<Rightarrow>
          (case generate_report sv (map_of (metadata st) ''draft'') (claims st)
                  (citations st) (artifacts st) (output_config st) of
             Inl e \<Rightarrow> node_failed ''Formatting failed: '' e st [FORMATTING]
           | Inr report \<Rightarrow>
               (let st1 = st\<lparr> artifacts := artifacts st @ [report],
                               current_node := ''formatting'' \<rparr>
                in (case update_job_status sv (job_id st1) COMPLETED of
                      Inl e \<Rightarrow> node_failed ''Formatting failed: '' e st1 [FORMATTING]
                    | Inr u' \<Rightarrow>
                        \<lparr> returned = ReturnsState, state_after = st1,
                          issued = [FORMATTING, COMPLETED] \<rparr>))))"

text \<open>\<open>_review_gate_condition\<close>.\<close>

definition review_gate_condition :: "research_state \<Rightarrow> string" where
  "review_gate_condition st = current_node st"

subsection \<open>The graph of \<open>_create_workflow_graph\<close>\<close>

text \<open>The graph library's name for the end of a run.\<close>

definition END :: string where
  "END = ''__end__''"

text \<open>The nodes added with \<open>add_node\<close>, each with its function.\<close>

definition graph_nodes :: "(string \<times> (services \<Rightarrow> research_state \<Rightarrow> node_out)) list" where
  "graph_nodes =
     [ (''query_understanding'', query_understanding_node),
       (''retrieval_hub'', retrieval_hub_node),
       (''evidence_synthesis'', evidence_synthesis_node),
       (''drafting'', drafting_node),
       (''fact_checking'', fact_checking_node),
       (''visualization'', visualization_node),
       (''review_gate'', review_gate_node),
       (''formatting'', formatting_node),
       (''human_approval'', human_approval_node) ]"

definition entry_point :: string where
  "entry_point = ''query_understanding''"

text \<open>
  The edges added with \<open>add_edge\<close>, in the order of the source. The last one starts
  at \<open>"error"\<close>, which is not a node of the graph and is the target of no edge.
\<close>

definition graph_edges :: "(string \<times> string) list" where
  "graph_edges =
     [ (''query_understanding'', ''retrieval_hub''),
       (''retrieval_hub'', ''evidence_synthesis''),
       (''evidence_synthesis'', ''drafting''),
       (''drafting'', ''fact_checking''),
       (''fact_checking'', ''visualization''),
       (''visualization'', ''review_gate''),
       (''human_approval'', ''drafting''),
       (''formatting'', END),
       (''error'', END) ]"

text \<open>
  The conditional edges of \<open>review_gate\<close>: the routing function is
  \<open>_review_gate_condition\<close>, and this is the mapping from its result to the next node.
\<close>

definition review_gate_paths :: "(string \<times> string) list" where
  "review_gate_paths =
     [ (''approve'', ''formatting''),
       (''request_changes'', ''drafting''),
       (''human_review'', ''human_approval'') ]"

text \<open>
  Running the compiled graph. The graph library is not part of the repository; the
  model gives it the meaning of its interface: a run starts at the entry point; after
  a node, a node with conditional edges has its routing function applied to the state
  and the result looked up in the mapping (a result that is not a key raises), any
  other node follows its edge; reaching \<open>END\<close> finishes the run. The node functions
  mutate the one state object of the run, so the state after a node is the object as
  the node left it, whatever the node returned.
\<close>

datatype graph_error = RouteKeyError string | UnknownNode string | NoEdge string

definition next_node :: "string \<Rightarrow> research_state \<Rightarrow> graph_error + string" where
  "next_node n st =
     (if n = ''review_gate'' then
        (case map_of review_gate_paths (review_gate_condition st) of
           None \<Rightarrow> Inl (RouteKeyError (review_gate_condition st))
         | Some t \<Rightarrow> Inr t)
      else
        (case map_of graph_edges n of
           None \<Rightarrow> Inl (NoEdge n)
         | Some t \<Rightarrow> Inr t))"

text \<open>
  What a run has done so far: the nodes executed, in order; the state object; and the
  status updates accepted. The checkpointer given to \<open>compile\<close> belongs to the graph
  library and is not modelled.
\<close>

record run =
  trace :: "string list"
  run_state :: research_state
  status_log :: "job_status list"

datatype run_end = Finished | Raised graph_error | OutOfFuel

definition after_node :: "string \<Rightarrow> node_out \<Rightarrow> run \<Rightarrow> run" where
  "after_node n out r =
     \<lparr> trace = trace r @ [n],
       run_state = state_after out,
       status_log = status_log r @ issued out \<rparr>"

text \<open>
  The graph has a cycle, so the run is bounded by fuel: one unit per node executed.
\<close>

fun run_graph :: "services \<Rightarrow> nat \<Rightarrow> string \<Rightarrow> run \<Rightarrow> run_end \<times> run" where
  "run_graph sv 0 n r = (if n = END then (Finished, r) else (OutOfFuel, r))"
| "run_graph sv (Suc fuel) n r =
     (if n = END then (Finished, r)
      else
        (case map_of graph_nodes n of
           None \<Rightarrow> (Raised (UnknownNode n), r)
         | Some f \<Rightarrow>
             (let r' = after_node n (f sv (run_state r)) r
              in (case next_node n (run_state r') of
                    Inl e \<Rightarrow> (Raised e, r')
                  | Inr t \<Rightarrow> run_graph sv fuel t r'))))"

text \<open>A run that has not executed anything yet.\<close>

definition new_run :: "research_state \<Rightarrow> run" where
  "new_run st = \<lparr> trace = [], run_state = st, status_log = [] \<rparr>"

text \<open>\<open>self.graph.ainvoke(state)\<close>.\<close>

definition ainvoke :: "services \<Rightarrow> nat \<Rightarrow> research_state \<Rightarrow> run_end \<times> run" where
  "ainvoke sv fuel st =
     run_graph sv fuel entry_point (new_run st)"

text \<open>
  \<open>start_workflow\<close>: builds a new state from its arguments, runs the graph on it and
  returns the final state's current node; an exception of the run is not caught. The
  second component is the run, for the properties below.
\<close>

datatype start_result = Returned string | Uncaught graph_error | Unfinished

definition start_workflow ::
  "services \<Rightarrow> nat \<Rightarrow> uuid \<Rightarrow> string \<Rightarrow> pydict option \<Rightarrow> pydict option \<Rightarrow> start_result \<times> run" where
  "start_workflow sv fuel jid q cs oc =
     (let st = ResearchState jid q cs oc;
          (e, r) = ainvoke sv fuel st
      in (case e of
            Finished \<Rightarrow> (Returned (current_node (run_state r)), r)
          | Raised err \<Rightarrow> (Uncaught err, r)
          | OutOfFuel \<Rightarrow> (Unfinished, r)))"

text \<open>Services that all succeed, with a fixed quality score and review decision.\<close>

definition sample_services :: "real \<Rightarrow> string \<Rightarrow> services" where
  "sample_services score decision =
     \<lparr> update_job_status = (\<lambda>j s. Inr ()),
       retrieve_sources = (\<lambda>q p c. Inr [PDict [(''url'', PStr ''s1'')]]),
       synthesize_evidence = (\<lambda>s q. Inr [PDict [(''claim'', PStr ''c1'')]]),
       create_draft = (\<lambda>c s oc. Inr (PStr ''draft'')),
       verify_claims = (\<lambda>c s. Inr (c, [PDict [(''cite'', PStr ''c1'')]])),
       create_visualizations = (\<lambda>c s. Inr [PStr ''chart'']),
       generate_report = (\<lambda>d c ci a oc. Inr (PStr ''report'')),
       quality_check = (\<lambda>st. Inr score),
       wait_for_human_approval = (\<lambda>j. Inr decision) \<rparr>"

text \<open>
  The seven node calls a run makes from the entry point up to and including the
  review gate, each on the state the previous one left.
\<close>

definition run_to_gate :: "services \<Rightarrow> run \<Rightarrow> run" where
  "run_to_gate sv r0 =
    (let r1 = after_node ''query_understanding'' (query_understanding_node sv (run_state r0)) r0;
         r2 = after_node ''retrieval_hub'' (retrieval_hub_node sv (run_state r1)) r1;
         r3 = after_node ''evidence_synthesis'' (evidence_synthesis_node sv (run_state r2)) r2;
         r4 = after_node ''drafting'' (drafting_node sv (run_state r3)) r3;
         r5 = after_node ''fact_checking'' (fact_checking_node sv (run_state r4)) r4;
         r6 = after_node ''visualization'' (visualization_node sv (run_state r5)) r5
     in after_node ''review_gate'' (review_gate_node sv (run_state r6)) r6)"

section \<open>The job endpoints (src/backend/app/api/v1/endpoints/jobs.py)\<close>

text \<open>
  Modelled from the spec: the \<open>Job\<close> record (\<open>app.models.job\<close> is not under src/),
  reduced to the two attributes the endpoints read: the owner and the status.
\<close>

record job_record =
  owner_id :: nat
  job_state :: job_status

text \<open>
  What the endpoints work on: the job records, the workflow state of each job, and
  the jobs whose workflow has been asked to cancel.
\<close>

record backend =
  jobs :: "uuid \<rightharpoonup> job_record"
  workflow_states :: "uuid \<rightharpoonup> research_state"
  cancel_requests :: "uuid list"

datatype api_error =
    HTTPException nat string | NotFoundError | ConflictError | InvalidAction
  | InvalidTransitionError

text \<open>
  Modelled from the spec: \<open>JobService.get_job_by_id(job_id, user_id)\<close> is not under
  src/. It finds the job with that id if it belongs to that user.
\<close>

definition get_job_by_id :: "backend \<Rightarrow> uuid \<Rightarrow> nat \<Rightarrow> job_record option" where
  "get_job_by_id b jid uid =
     (case jobs b jid of
        None \<Rightarrow> None
      | Some j \<Rightarrow> (if owner_id j = uid then Some j else None))"

text \<open>
  Modelled from the spec: the terminal statuses of the glossary.
\<close>

definition terminal_status :: "job_status \<Rightarrow> bool" where
  "terminal_status s = (s = COMPLETED \<or> s = FAILED \<or> s = CANCELLED)"

text \<open>
  Modelled from the spec: the transition table that \<open>JobService\<close> (not under src/)
  enforces centrally. The pairs are the chain of the Job Lifecycle Manager
  (\<open>created\<close> to \<open>completed\<close>, with \<open>awaiting_human\<close> optional between \<open>reviewing\<close> and
  \<open>formatting\<close>), the two ways back to drafting that the Workflow Engine and the Human
  Review Gate have (from the review gate and from the human review), and the retry
  (\<open>failed\<close> to \<open>retrying\<close>, which re-enters \<open>queued\<close>).
\<close>

definition status_steps :: "(job_status \<times> job_status) list" where
  "status_steps =
     [ (CREATED, QUEUED), (QUEUED, PLANNING), (PLANNING, RETRIEVING),
       (RETRIEVING, SYNTHESIZING), (SYNTHESIZING, DRAFTING), (DRAFTING, FACT_CHECKING),
       (FACT_CHECKING, VISUALIZING), (VISUALIZING, REVIEWING),
       (REVIEWING, AWAITING_HUMAN), (REVIEWING, FORMATTING), (AWAITING_HUMAN, FORMATTING),
       (FORMATTING, COMPLETED),
       (REVIEWING, DRAFTING), (AWAITING_HUMAN, DRAFTING),
       (FAILED, RETRYING), (RETRYING, QUEUED) ]"

text \<open>
  Modelled from the spec: \<open>failed\<close> and \<open>cancelled\<close> are reachable from any status
  that is not terminal, and so is \<open>cancelling\<close>, which a cancellation request sets;
  any other status is reachable along a pair of the table only.
\<close>

definition transition_allowed :: "job_status \<Rightarrow> job_status \<Rightarrow> bool" where
  "transition_allowed s t =
     (if t = FAILED \<or> t = CANCELLED \<or> t = CANCELLING then \<not> terminal_status s
      else (s, t) \<in> set status_steps)"

text \<open>
  Modelled from the spec: \<open>JobService.update_job_status(job_id, status)\<close> on the job
  records is not under src/. It stores the status on the job's record if the
  transition table allows it from the job's current status; otherwise it fails with
  the invalid-transition error and leaves the record as it was. An unknown job id is
  a not-found error.
\<close>

definition store_job_status :: "backend \<Rightarrow> uuid \<Rightarrow> job_status \<Rightarrow> api_error + backend" where
  "store_job_status b jid s =
     (case jobs b jid of
        None \<Rightarrow> Inl NotFoundError
      | Some j \<Rightarrow>
          (if transition_allowed (job_state j) s
           then Inr (b\<lparr> jobs := (jobs b)(jid \<mapsto> j\<lparr> job_state := s \<rparr>) \<rparr>)
           else Inl InvalidTransitionError))"

text \<open>
  Modelled from the spec: \<open>LangGraphService.cancel_workflow(job_id)\<close> is not under
  src/. The request is recorded; it changes no job record.
\<close>

definition cancel_workflow :: "backend \<Rightarrow> uuid \<Rightarrow> backend" where
  "cancel_workflow b jid = b\<lparr> cancel_requests := cancel_requests b @ [jid] \<rparr>"

text \<open>
  \<open>cancel_job\<close>. The result is the exception raised or the message returned, with
  the backend as the call left it. The workflow is asked to cancel before the status
  is updated, and an exception of the update is not caught.
\<close>

definition cancel_job :: "backend \<Rightarrow> uuid \<Rightarrow> nat \<Rightarrow> (api_error + string) \<times> backend" where
  "cancel_job b jid uid =
     (case get_job_by_id b jid uid of
        None \<Rightarrow> (Inl (HTTPException 404 ''Job not found''), b)
      | Some job \<Rightarrow>
          (if job_state job \<in> set [COMPLETED, FAILED]
           then (Inl (HTTPException 400 ''Cannot cancel completed or failed job''), b)
           else
             (let b1 = cancel_workflow b jid
              in (case store_job_status b1 jid FAILED of
                    Inl e \<Rightarrow> (Inl e, b1)
                  | Inr b2 \<Rightarrow> (Inr ''Job cancelled successfully'', b2)))))"

text \<open>
  Modelled from the spec: \<open>LangGraphService.process_review(job_id, action,
  instructions)\<close> is not under src/. The spec's Human Review Gate, on receipt of a
  decision: the job must be in \<open>awaiting_human\<close>, otherwise the decision fails with a
  conflict error and has no side effect (an unknown job id is a not-found error); the
  action must be one of the three allowed
  values; \<open>approve\<close> routes to formatting, \<open>request_changes\<close> and \<open>reject\<close> route to
  drafting, and the instructions, if any, are carried into the workflow state's
  metadata. A decision that is rejected changes nothing.
\<close>

definition carry_instructions :: "backend \<Rightarrow> uuid \<Rightarrow> pyval option \<Rightarrow> backend" where
  "carry_instructions b jid instructions =
     (case (workflow_states b jid, instructions) of
        (Some st, Some i) \<Rightarrow>
          b\<lparr> workflow_states := (workflow_states b)
               (jid \<mapsto> st\<lparr> metadata := dict_set ''review_instructions'' i (metadata st) \<rparr>) \<rparr>
      | _ \<Rightarrow> b)"

definition route_review ::
  "backend \<Rightarrow> uuid \<Rightarrow> pyval option \<Rightarrow> job_status \<Rightarrow> (api_error + unit) \<times> backend" where
  "route_review b jid instructions s =
     (case store_job_status (carry_instructions b jid instructions) jid s of
        Inl e \<Rightarrow> (Inl e, b)
      | Inr b' \<Rightarrow> (Inr (), b'))"

definition process_review ::
  "backend \<Rightarrow> uuid \<Rightarrow> pyval option \<Rightarrow> pyval option \<Rightarrow> (api_error + unit) \<times> backend" where
  "process_review b jid action instructions =
     (case jobs b jid of
        None \<Rightarrow> (Inl NotFoundError, b)
      | Some j \<Rightarrow>
          (if job_state j \<noteq> AWAITING_HUMAN then (Inl ConflictError, b)
           else if action = Some (PStr ''approve'')
             then route_review b jid instructions FORMATTING
           else if action = Some (PStr ''request_changes'') \<or> action = Some (PStr ''reject'')
             then route_review b jid instructions DRAFTING
           else (Inl InvalidAction, b)))"

text \<open>
  \<open>submit_review\<close>: the job is looked up for the current user, then the review is
  handed to \<open>process_review\<close>, whose exception is not caught here.
\<close>

definition submit_review ::
  "backend \<Rightarrow> uuid \<Rightarrow> pydict \<Rightarrow> nat \<Rightarrow> (api_error + string) \<times> backend" where
  "submit_review b jid review_data uid =
     (case get_job_by_id b jid uid of
        None \<Rightarrow> (Inl (HTTPException 404 ''Job not found''), b)
      | Some job \<Rightarrow>
          (case process_review b jid (map_of review_data ''action'')
                  (map_of review_data ''instructions'') of
             (Inl e, b') \<Rightarrow> (Inl e, b')
           | (Inr u, b') \<Rightarrow> (Inr ''Review submitted successfully'', b')))"

text \<open>A backend with one job, owned by user 1, in the given status.\<close>

definition sample_backend :: "job_status \<Rightarrow> backend" where
  "sample_backend s =
     \<lparr> jobs = [0 \<mapsto> \<lparr> owner_id = 1, job_state = s \<rparr>],
       workflow_states = [0 \<mapsto> ResearchState 0 ''impact of X'' None None],
       cancel_requests = [] \<rparr>"

text \<open>A state with two messages, a source, an error and a draft.\<close>

definition sample_state :: research_state where
  "sample_state = (ResearchState 0 ''impact of X'' None (Some [(''format'', PStr ''pdf'')]))
     \<lparr> messages := [HumanMessage ''impact of X'', AIMessage ''Research plan created''],
       sources := [PDict [(''url'', PStr ''a'')]],
       current_node := ''drafting'', errors := [''Retrieval failed: x''],
       metadata := [(''draft'', PStr ''text'')] \<rparr>"

text \<open>Services whose quality check and whose wait for the reviewer both raise.\<close>

definition failing_gates :: services where
  "failing_gates = (sample_services 0.9 ''approve'')
     \<lparr> quality_check := (\<lambda>st. Inl ''no score''),
       wait_for_human_approval := (\<lambda>j. Inl ''timeout'') \<rparr>"

text \<open>Services whose fact checker raises; every other call succeeds.\<close>

definition failing_fact_check :: services where
  "failing_fact_check = (sample_services 0.9 ''approve'')\<lparr> verify_claims := (\<lambda>c s. Inl ''boom'') \<rparr>"

section \<open>Properties\<close>

subsection \<open>Reading back what \<open>to_dict\<close> wrote\<close>

lemma map_result_as_str_PStr: "map_result (as_str k) (map PStr es) = Inr es"
  by (induction es) simp_all

lemma map_result_parse_message:
  "\<forall>m\<in>set ms. parse_obj cd (msg_dict cd m) = Some m \<Longrightarrow>
   map_result (parse_message cd) (map (msg_dict cd) ms) = Inr ms"
  by (induction ms) (simp_all add: parse_message_def)

lemma or_empty_Some: "or_empty (Some d) = d"
  by (simp add: or_empty_def)

text \<open>
  C10. For every state whose job id and messages survive their own serialisation
  (the UUID constructor gives back the id from its string, and \<open>BaseMessage.parse_obj\<close>
  gives back each message from its dict), \<open>from_dict (to_dict s)\<close> succeeds and is
  \<open>s\<close> itself: all twelve fields are equal.
\<close>

theorem from_dict_to_dict:
  assumes "uuid_parse cd (uuid_str cd (job_id s)) = Some (job_id s)"
    and "\<forall>m\<in>set (messages s). parse_obj cd (msg_dict cd m) = Some m"
  shows "from_dict cd (to_dict cd s) = Inr s"
  using assms
  by (simp add: from_dict_def to_dict_def dict_item_def dict_get_def bind_result_def
      parse_uuid_def ResearchState_def or_empty_Some map_result_as_str_PStr
      map_result_parse_message)

theorem from_dict_to_dict_witness:
  "from_dict sample_codec (to_dict sample_codec sample_state) = Inr sample_state"
proof (rule from_dict_to_dict)
  show "uuid_parse sample_codec (uuid_str sample_codec (job_id sample_state)) =
      Some (job_id sample_state)"
    by (simp add: sample_codec_def sample_state_def ResearchState_def sample_uuid_str_def
        sample_uuid_parse_def)
  show "\<forall>m\<in>set (messages sample_state).
      parse_obj sample_codec (msg_dict sample_codec m) = Some m"
    by (simp add: sample_codec_def sample_state_def ResearchState_def)
qed

subsection \<open>One step of a run\<close>

lemma next_node_plain:
  "next_node ''query_understanding'' st = Inr ''retrieval_hub''"
  "next_node ''retrieval_hub'' st = Inr ''evidence_synthesis''"
  "next_node ''evidence_synthesis'' st = Inr ''drafting''"
  "next_node ''drafting'' st = Inr ''fact_checking''"
  "next_node ''fact_checking'' st = Inr ''visualization''"
  "next_node ''visualization'' st = Inr ''review_gate''"
  "next_node ''human_approval'' st = Inr ''drafting''"
  "next_node ''formatting'' st = Inr END"
  by (simp_all add: next_node_def graph_edges_def)

lemma node_lookup:
  "map_of graph_nodes ''query_understanding'' = Some query_understanding_node"
  "map_of graph_nodes ''retrieval_hub'' = Some retrieval_hub_node"
  "map_of graph_nodes ''evidence_synthesis'' = Some evidence_synthesis_node"
  "map_of graph_nodes ''drafting'' = Some drafting_node"
  "map_of graph_nodes ''fact_checking'' = Some fact_checking_node"
  "map_of graph_nodes ''visualization'' = Some visualization_node"
  "map_of graph_nodes ''review_gate'' = Some review_gate_node"
  "map_of graph_nodes ''formatting'' = Some formatting_node"
  "map_of graph_nodes ''human_approval'' = Some human_approval_node"
  by (simp_all add: graph_nodes_def)

lemma not_END:
  "''query_understanding'' \<noteq> END" "''retrieval_hub'' \<noteq> END" "''evidence_synthesis'' \<noteq> END"
  "''drafting'' \<noteq> END" "''fact_checking'' \<noteq> END" "''visualization'' \<noteq> END"
  "''review_gate'' \<noteq> END" "''formatting'' \<noteq> END" "''human_approval'' \<noteq> END"
  by (simp_all add: END_def)

lemma run_state_after_node: "run_state (after_node n out r) = state_after out"
  by (simp add: after_node_def)

lemma trace_after_node: "trace (after_node n out r) = trace r @ [n]"
  by (simp add: after_node_def)

lemma run_graph_step:
  assumes "n \<noteq> END" and "map_of graph_nodes n = Some f"
  shows "run_graph sv (Suc fuel) n r =
     (case next_node n (state_after (f sv (run_state r))) of
        Inl e \<Rightarrow> (Raised e, after_node n (f sv (run_state r)) r)
      | Inr t \<Rightarrow> run_graph sv fuel t (after_node n (f sv (run_state r)) r))"
  using assms by (simp add: Let_def run_state_after_node)

lemma run_graph_out_of_fuel: "n \<noteq> END \<Longrightarrow> run_graph sv 0 n r = (OutOfFuel, r)"
  by simp

subsection \<open>The state at the review gate\<close>

lemma visualization_current_node:
  "current_node (state_after (visualization_node sv st)) = ''visualization'' \<or>
   current_node (state_after (visualization_node sv st)) = ''error''"
  by (simp add: visualization_node_def node_failed_def split: sum.split)

lemma review_gate_current_node:
  "current_node (state_after (review_gate_node sv st)) = current_node st \<or>
   current_node (state_after (review_gate_node sv st)) = ''error''"
  by (simp add: review_gate_node_def node_failed_def split: sum.split)

lemma route_visualization: "map_of review_gate_paths ''visualization'' = None"
  by (simp add: review_gate_paths_def)

lemma route_error: "map_of review_gate_paths ''error'' = None"
  by (simp add: review_gate_paths_def)

lemma next_node_review_gate:
  assumes "current_node st = ''visualization'' \<or> current_node st = ''error''"
  shows "next_node ''review_gate'' st = Inl (RouteKeyError (current_node st))"
  using assms
  by (auto simp: next_node_def review_gate_condition_def route_visualization route_error)

lemma run_to_gate_current_node:
  "current_node (run_state (run_to_gate sv r0)) = ''visualization'' \<or>
   current_node (run_state (run_to_gate sv r0)) = ''error''"
  unfolding run_to_gate_def Let_def run_state_after_node
  using visualization_current_node review_gate_current_node by metis

lemma run_to_gate_trace:
  "trace (run_to_gate sv r0) = trace r0 @
     [''query_understanding'', ''retrieval_hub'', ''evidence_synthesis'', ''drafting'',
      ''fact_checking'', ''visualization'', ''review_gate'']"
  by (simp add: run_to_gate_def Let_def trace_after_node)

subsection \<open>Every run stops at the review gate\<close>

text \<open>
  Seven units of fuel are enough for any run, with any services and from any state:
  it executes the seven nodes up to the review gate, and the lookup of the gate's
  routing result raises.
\<close>

lemma run_graph_from_entry:
  "run_graph sv (Suc (Suc (Suc (Suc (Suc (Suc (Suc k))))))) ''query_understanding'' r0 =
     (Raised (RouteKeyError (current_node (run_state (run_to_gate sv r0)))), run_to_gate sv r0)"
proof -
  have gate: "next_node ''review_gate'' (run_state (run_to_gate sv r0)) =
      Inl (RouteKeyError (current_node (run_state (run_to_gate sv r0))))"
    by (rule next_node_review_gate) (rule run_to_gate_current_node)
  show ?thesis
    using gate
    by (simp add: run_graph_step [OF not_END(1) node_lookup(1)]
        run_graph_step [OF not_END(2) node_lookup(2)]
        run_graph_step [OF not_END(3) node_lookup(3)]
        run_graph_step [OF not_END(4) node_lookup(4)]
        run_graph_step [OF not_END(5) node_lookup(5)]
        run_graph_step [OF not_END(6) node_lookup(6)]
        run_graph_step [OF not_END(7) node_lookup(7)]
        next_node_plain run_state_after_node run_to_gate_def Let_def del: run_graph.simps)
qed

lemma ainvoke_raises:
  assumes "7 \<le> fuel"
  shows "ainvoke sv fuel st =
     (Raised (RouteKeyError (current_node (run_state (run_to_gate sv (new_run st))))),
      run_to_gate sv (new_run st))"
proof -
  from assms obtain k where "fuel = Suc (Suc (Suc (Suc (Suc (Suc (Suc k))))))"
    by (auto simp: eval_nat_numeral dest!: le_Suc_ex)
  then show ?thesis
    by (simp only: ainvoke_def entry_point_def run_graph_from_entry)
qed

lemma start_workflow_raises:
  assumes "7 \<le> fuel"
  shows "start_workflow sv fuel jid q cs oc =
     (Uncaught (RouteKeyError (current_node (run_state (run_to_gate sv
         (new_run (ResearchState jid q cs oc)))))),
      run_to_gate sv (new_run (ResearchState jid q cs oc)))"
  by (simp add: start_workflow_def Let_def ainvoke_raises [OF assms])

lemmas node_defs = query_understanding_node_def retrieval_hub_node_def
  evidence_synthesis_node_def drafting_node_def fact_checking_node_def
  visualization_node_def review_gate_node_def node_failed_def create_research_plan_def

lemma run_trace:
  "trace (run_to_gate sv (new_run st)) =
     [''query_understanding'', ''retrieval_hub'', ''evidence_synthesis'', ''drafting'',
      ''fact_checking'', ''visualization'', ''review_gate'']"
  by (simp add: run_to_gate_trace new_run_def)

lemma sample_run_status:
  "status_log (run_to_gate (sample_services sc d) (new_run st)) =
     [PLANNING, RETRIEVING, SYNTHESIZING, DRAFTING, FACT_CHECKING, VISUALIZING, REVIEWING]"
  by (simp add: run_to_gate_def new_run_def Let_def after_node_def node_defs
      sample_services_def)

lemma sample_run_current_node:
  "current_node (run_state (run_to_gate (sample_services sc d) (new_run st))) = ''visualization''"
  by (simp add: run_to_gate_def new_run_def Let_def after_node_def node_defs
      sample_services_def)

lemma failing_run_status:
  "status_log (run_to_gate failing_fact_check (new_run st)) =
     [PLANNING, RETRIEVING, SYNTHESIZING, DRAFTING, FACT_CHECKING, VISUALIZING, REVIEWING]"
  by (simp add: run_to_gate_def new_run_def Let_def after_node_def node_defs
      sample_services_def failing_fact_check_def)

lemma failing_run_errors:
  "errors (run_state (run_to_gate failing_fact_check (new_run (ResearchState j q cs oc)))) =
     [''Fact checking failed: boom'']"
  by (simp add: run_to_gate_def new_run_def Let_def after_node_def node_defs
      sample_services_def failing_fact_check_def ResearchState_def)

lemma failing_run_current_node:
  "current_node (run_state (run_to_gate failing_fact_check (new_run st))) = ''visualization''"
  by (simp add: run_to_gate_def new_run_def Let_def after_node_def node_defs
      sample_services_def failing_fact_check_def)

subsection \<open>The review gate\<close>

text \<open>
  C9. The routing function of the review gate returns the state's current node. For
  every state that reaches the gate along the graph's only edge into it (out of the
  visualization node, then through the review gate node), with any services, that
  value is \<open>"visualization"\<close> or \<open>"error"\<close>, never one of the keys \<open>"approve"\<close>,
  \<open>"request_changes"\<close>, \<open>"human_review"\<close> of the branch mapping, so the lookup finds
  nothing and the step raises. When the gate node computes a verdict from a score, it
  returns the verdict and leaves the state as it was: the verdict is not what the
  conditional edge consults.
\<close>

theorem review_gate_condition_matches_no_branch:
  "review_gate_condition st = current_node st \<and>
   (let st1 = state_after (visualization_node sv st);
        st2 = state_after (review_gate_node sv st1)
    in (current_node st2 = ''visualization'' \<or> current_node st2 = ''error'') \<and>
       review_gate_condition st2 \<notin> {''approve'', ''request_changes'', ''human_review''} \<and>
       map_of review_gate_paths (review_gate_condition st2) = None \<and>
       next_node ''review_gate'' st2 = Inl (RouteKeyError (current_node st2)) \<and>
       (\<forall>score. update_job_status sv (job_id st1) REVIEWING = Inr () \<and>
            quality_check sv st1 = Inr score \<longrightarrow>
          returned (review_gate_node sv st1) = ReturnsStr (review_verdict score) \<and>
          st2 = st1))"
proof -
  define st1 where "st1 = state_after (visualization_node sv st)"
  define st2 where "st2 = state_after (review_gate_node sv st1)"
  have cn: "current_node st2 = ''visualization'' \<or> current_node st2 = ''error''"
    unfolding st2_def st1_def
    using visualization_current_node [of sv st]
      review_gate_current_node [of sv "state_after (visualization_node sv st)"]
    by auto
  have nokey: "review_gate_condition st2 \<notin> {''approve'', ''request_changes'', ''human_review''}"
    using cn by (auto simp: review_gate_condition_def)
  have nomap: "map_of review_gate_paths (review_gate_condition st2) = None"
    using cn by (auto simp: review_gate_condition_def route_visualization route_error)
  have nxt: "next_node ''review_gate'' st2 = Inl (RouteKeyError (current_node st2))"
    using cn by (rule next_node_review_gate)
  have verdict: "\<forall>score. update_job_status sv (job_id st1) REVIEWING = Inr () \<and>
            quality_check sv st1 = Inr score \<longrightarrow>
          returned (review_gate_node sv st1) = ReturnsStr (review_verdict score) \<and>
          st2 = st1"
    by (simp add: st2_def review_gate_node_def)
  show ?thesis
    using cn nokey nomap nxt verdict
    by (simp add: review_gate_condition_def Let_def st1_def [symmetric] st2_def [symmetric])
qed

theorem review_gate_condition_matches_no_branch_witness:
  "returned (review_gate_node (sample_services 0.9 ''approve'')
      (state_after (visualization_node (sample_services 0.9 ''approve'') sample_state))) =
     ReturnsStr ''approve'' \<and>
   next_node ''review_gate'' (state_after (review_gate_node (sample_services 0.9 ''approve'')
      (state_after (visualization_node (sample_services 0.9 ''approve'') sample_state)))) =
     Inl (RouteKeyError ''visualization'')"
proof -
  let ?sv = "sample_services 0.9 ''approve''"
  let ?st1 = "state_after (visualization_node ?sv sample_state)"
  have h: "update_job_status ?sv (job_id ?st1) REVIEWING = Inr () \<and>
      quality_check ?sv ?st1 = Inr 0.9"
    by (simp add: sample_services_def)
  have c: "current_node ?st1 = ''visualization''"
    by (simp add: sample_services_def visualization_node_def)
  let ?st2 = "state_after (review_gate_node ?sv ?st1)"
  note gate = review_gate_condition_matches_no_branch [of sample_state ?sv, unfolded Let_def]
  from gate have nxt: "next_node ''review_gate'' ?st2 = Inl (RouteKeyError (current_node ?st2))"
    by blast
  from gate h have v: "returned (review_gate_node ?sv ?st1) = ReturnsStr (review_verdict 0.9) \<and>
      ?st2 = ?st1"
    by blast
  have "review_verdict 0.9 = ''approve''"
    by (simp add: review_verdict_def)
  with v nxt c show ?thesis
    by simp
qed

text \<open>
  C1. The claim is that a score of at least 0.8 takes the workflow from the review
  gate to formatting (and the two lower bands to drafting and to human review). At
  the score 0.9, on a state that has come out of the visualization node: the gate node
  returns \<open>"approve"\<close>, which the branch mapping would send to formatting, but the
  routing function answers \<open>"visualization"\<close> and the step raises; formatting is not
  the next node.
\<close>

theorem approve_verdict_is_not_routed:
  "returned (review_gate_node (sample_services 0.9 ''approve'')
      (state_after (visualization_node (sample_services 0.9 ''approve'')
         (ResearchState 0 ''impact of X'' None None)))) = ReturnsStr ''approve'' \<and>
   map_of review_gate_paths ''approve'' = Some ''formatting'' \<and>
   next_node ''review_gate'' (state_after (review_gate_node (sample_services 0.9 ''approve'')
      (state_after (visualization_node (sample_services 0.9 ''approve'')
         (ResearchState 0 ''impact of X'' None None))))) =
     Inl (RouteKeyError ''visualization'')"
  by (simp add: sample_services_def visualization_node_def review_gate_node_def
      review_verdict_def review_gate_paths_def next_node_def review_gate_condition_def)

text \<open>
  C2, as stated, fails. With a quality check that returns 0.7 on every visit, the
  run executes the seven nodes up to the review gate once and raises there: it never
  enters the human approval node, and the verdict for 0.7 is not \<open>"human_review"\<close>.
\<close>

theorem loop_back_run_never_reaches_human_review:
  "fst (start_workflow (sample_services 0.7 ''approve'') 100 0 ''impact of X'' None None) =
     Uncaught (RouteKeyError ''visualization'') \<and>
   trace (snd (start_workflow (sample_services 0.7 ''approve'') 100 0 ''impact of X'' None None)) =
     [''query_understanding'', ''retrieval_hub'', ''evidence_synthesis'', ''drafting'',
      ''fact_checking'', ''visualization'', ''review_gate''] \<and>
   ''human_approval'' \<notin> set (trace (snd (start_workflow (sample_services 0.7 ''approve'') 100 0
      ''impact of X'' None None))) \<and>
   review_verdict 0.7 \<noteq> ''human_review''"
  by (simp add: start_workflow_raises sample_run_current_node run_trace review_verdict_def)

text \<open>
  C2, amended. On every visit of the review gate on which the status update is
  accepted and the quality check returns a score in [0.6, 0.8), the gate node's verdict
  is \<open>"request_changes"\<close>, which the branch mapping sends to drafting, and the node
  leaves the state as it was. This holds for the i-th visit whatever i is: the verdict
  depends on the score alone, there is no count of loop-backs and no maximum, and the
  verdict never turns into \<open>"human_review"\<close>.
\<close>

theorem review_gate_verdict_has_no_loop_bound:
  assumes "\<forall>i. update_job_status sv (job_id (visit i)) REVIEWING = Inr ()"
    and "\<forall>i. \<exists>score. quality_check sv (visit i) = Inr score \<and> 0.6 \<le> score \<and> score < 0.8"
  shows "\<forall>i::nat. returned (review_gate_node sv (visit i)) = ReturnsStr ''request_changes'' \<and>
           state_after (review_gate_node sv (visit i)) = visit i \<and>
           map_of review_gate_paths ''request_changes'' = Some ''drafting''"
proof
  fix i :: nat
  from assms(2) obtain score where s: "quality_check sv (visit i) = Inr score"
    "0.6 \<le> score" "score < 0.8" by blast
  from assms(1) have u: "update_job_status sv (job_id (visit i)) REVIEWING = Inr ()" by simp
  have "review_verdict score = ''request_changes''"
    using s(2,3) by (simp add: review_verdict_def)
  then show "returned (review_gate_node sv (visit i)) = ReturnsStr ''request_changes'' \<and>
           state_after (review_gate_node sv (visit i)) = visit i \<and>
           map_of review_gate_paths ''request_changes'' = Some ''drafting''"
    using s(1) u by (simp add: review_gate_node_def review_gate_paths_def)
qed

theorem review_gate_verdict_has_no_loop_bound_witness:
  "returned (review_gate_node (sample_services 0.7 ''approve'') ((\<lambda>i::nat. sample_state) 4)) =
     ReturnsStr ''request_changes''"
proof -
  let ?sv = "sample_services 0.7 ''approve''"
  have h1: "\<forall>i::nat. update_job_status ?sv (job_id ((\<lambda>i. sample_state) i)) REVIEWING = Inr ()"
    by (simp add: sample_services_def)
  have h2: "\<forall>i::nat. \<exists>score. quality_check ?sv ((\<lambda>i. sample_state) i) = Inr score \<and>
      0.6 \<le> score \<and> score < 0.8"
    by (intro allI exI [of _ "0.7"]) (simp add: sample_services_def)
  from review_gate_verdict_has_no_loop_bound [OF h1 h2] show ?thesis by blast
qed

subsection \<open>The human approval node\<close>

text \<open>
  C3, as stated, fails. With the decision \<open>"approve"\<close> the node returns \<open>"approve"\<close>,
  and the next node is drafting, not formatting: a run started at the human approval
  node executes it and then the drafting node.
\<close>

theorem approve_decision_routes_to_drafting:
  "returned (human_approval_node (sample_services 0.3 ''approve'') sample_state) =
     ReturnsStr ''approve'' \<and>
   next_node ''human_approval''
     (state_after (human_approval_node (sample_services 0.3 ''approve'') sample_state)) =
     Inr ''drafting'' \<and>
   trace (snd (run_graph (sample_services 0.3 ''approve'') 2 ''human_approval''
      (new_run sample_state))) = [''human_approval'', ''drafting'']"
  by (simp add: sample_services_def human_approval_node_def next_node_plain
      eval_nat_numeral run_graph_step [OF not_END(9) node_lookup(9)]
      run_graph_step [OF not_END(4) node_lookup(4)] run_graph_out_of_fuel [OF not_END(5)]
      trace_after_node new_run_def del: run_graph.simps)

text \<open>
  C3, amended. After the human approval node the workflow goes to drafting, for
  every outcome of the wait (approve, any other decision, or an exception): the graph
  has the one edge from human approval to drafting, and a run continues there. The
  node leaves the state's metadata as it was.
\<close>

theorem human_approval_always_routes_to_drafting:
  "next_node ''human_approval'' (state_after (human_approval_node sv st)) = Inr ''drafting'' \<and>
   metadata (state_after (human_approval_node sv st)) = metadata st \<and>
   run_graph sv (Suc fuel) ''human_approval'' r =
     run_graph sv fuel ''drafting''
       (after_node ''human_approval'' (human_approval_node sv (run_state r)) r)"
  by (simp add: next_node_plain run_graph_step [OF not_END(9) node_lookup(9)]
      human_approval_node_def node_failed_def split: sum.split del: run_graph.simps)

theorem human_approval_always_routes_to_drafting_witness:
  "next_node ''human_approval''
     (state_after (human_approval_node (sample_services 0.3 ''reject'') sample_state)) =
     Inr ''drafting''"
  using human_approval_always_routes_to_drafting [of "sample_services 0.3 ''reject''" sample_state]
  by (rule conjunct1)

subsection \<open>What a node does to the errors\<close>

lemma node_inv_query_understanding:
  "FAILED \<notin> set (issued (query_understanding_node sv st)) \<and>
   (errors (state_after (query_understanding_node sv st)) = errors st \<or>
    (\<exists>msg. errors (state_after (query_understanding_node sv st)) = errors st @ [msg] \<and>
       current_node (state_after (query_understanding_node sv st)) = ''error'' \<and>
       returned (query_understanding_node sv st) = ReturnsState))"
  by (simp add: query_understanding_node_def node_failed_def create_research_plan_def
      split: sum.split)

lemma node_inv_retrieval_hub:
  "FAILED \<notin> set (issued (retrieval_hub_node sv st)) \<and>
   (errors (state_after (retrieval_hub_node sv st)) = errors st \<or>
    (\<exists>msg. errors (state_after (retrieval_hub_node sv st)) = errors st @ [msg] \<and>
       current_node (state_after (retrieval_hub_node sv st)) = ''error'' \<and>
       returned (retrieval_hub_node sv st) = ReturnsState))"
  by (simp add: retrieval_hub_node_def node_failed_def split: sum.split)

lemma node_inv_evidence_synthesis:
  "FAILED \<notin> set (issued (evidence_synthesis_node sv st)) \<and>
   (errors (state_after (evidence_synthesis_node sv st)) = errors st \<or>
    (\<exists>msg. errors (state_after (evidence_synthesis_node sv st)) = errors st @ [msg] \<and>
       current_node (state_after (evidence_synthesis_node sv st)) = ''error'' \<and>
       returned (evidence_synthesis_node sv st) = ReturnsState))"
  by (simp add: evidence_synthesis_node_def node_failed_def split: sum.split)

lemma node_inv_drafting:
  "FAILED \<notin> set (issued (drafting_node sv st)) \<and>
   (errors (state_after (drafting_node sv st)) = errors st \<or>
    (\<exists>msg. errors (state_after (drafting_node sv st)) = errors st @ [msg] \<and>
       current_node (state_after (drafting_node sv st)) = ''error'' \<and>
       returned (drafting_node sv st) = ReturnsState))"
  by (simp add: drafting_node_def node_failed_def split: sum.split)

lemma node_inv_fact_checking:
  "FAILED \<notin> set (issued (fact_checking_node sv st)) \<and>
   (errors (state_after (fact_checking_node sv st)) = errors st \<or>
    (\<exists>msg. errors (state_after (fact_checking_node sv st)) = errors st @ [msg] \<and>
       current_node (state_after (fact_checking_node sv st)) = ''error'' \<and>
       returned (fact_checking_node sv st) = ReturnsState))"
  by (simp add: fact_checking_node_def node_failed_def split: sum.split prod.split)

lemma node_inv_visualization:
  "FAILED \<notin> set (issued (visualization_node sv st)) \<and>
   (errors (state_after (visualization_node sv st)) = errors st \<or>
    (\<exists>msg. errors (state_after (visualization_node sv st)) = errors st @ [msg] \<and>
       current_node (state_after (visualization_node sv st)) = ''error'' \<and>
       returned (visualization_node sv st) = ReturnsState))"
  by (simp add: visualization_node_def node_failed_def split: sum.split)

lemma node_inv_review_gate:
  "FAILED \<notin> set (issued (review_gate_node sv st)) \<and>
   (errors (state_after (review_gate_node sv st)) = errors st \<or>
    (\<exists>msg. errors (state_after (review_gate_node sv st)) = errors st @ [msg] \<and>
       current_node (state_after (review_gate_node sv st)) = ''error'' \<and>
       returned (review_gate_node sv st) = ReturnsState))"
  by (simp add: review_gate_node_def node_failed_def split: sum.split)

lemma node_inv_formatting:
  "FAILED \<notin> set (issued (formatting_node sv st)) \<and>
   (errors (state_after (formatting_node sv st)) = errors st \<or>
    (\<exists>msg. errors (state_after (formatting_node sv st)) = errors st @ [msg] \<and>
       current_node (state_after (formatting_node sv st)) = ''error'' \<and>
       returned (formatting_node sv st) = ReturnsState))"
  by (simp add: formatting_node_def node_failed_def Let_def split: sum.split)

lemma node_inv_human_approval:
  "FAILED \<notin> set (issued (human_approval_node sv st)) \<and>
   (errors (state_after (human_approval_node sv st)) = errors st \<or>
    (\<exists>msg. errors (state_after (human_approval_node sv st)) = errors st @ [msg] \<and>
       current_node (state_after (human_approval_node sv st)) = ''error'' \<and>
       returned (human_approval_node sv st) = ReturnsState))"
  by (simp add: human_approval_node_def node_failed_def split: sum.split)

subsection \<open>Runs\<close>

text \<open>
  C4, as stated, fails. With a fact checker that raises \<open>boom\<close>, the message
  \<open>Fact checking failed: boom\<close> is appended to the state's errors, but the status
  \<open>FAILED\<close> is never issued for the job, and the run goes on to the visualization
  node and the review gate node, whose status updates (\<open>VISUALIZING\<close>, \<open>REVIEWING\<close>)
  are issued.
\<close>

theorem failed_stage_does_not_stop_the_run:
  "fst (start_workflow failing_fact_check 20 0 ''impact of X'' None None) =
     Uncaught (RouteKeyError ''visualization'') \<and>
   trace (snd (start_workflow failing_fact_check 20 0 ''impact of X'' None None)) =
     [''query_understanding'', ''retrieval_hub'', ''evidence_synthesis'', ''drafting'',
      ''fact_checking'', ''visualization'', ''review_gate''] \<and>
   errors (run_state (snd (start_workflow failing_fact_check 20 0 ''impact of X'' None None))) =
     [''Fact checking failed: boom''] \<and>
   status_log (snd (start_workflow failing_fact_check 20 0 ''impact of X'' None None)) =
     [PLANNING, RETRIEVING, SYNTHESIZING, DRAFTING, FACT_CHECKING, VISUALIZING, REVIEWING] \<and>
   FAILED \<notin> set (status_log (snd (start_workflow failing_fact_check 20 0 ''impact of X''
     None None)))"
  by (simp add: start_workflow_raises failing_run_current_node run_trace
      failing_run_errors failing_run_status)

text \<open>
  C4, amended. A failure is recorded in the workflow state only. Every node of the
  graph, with any services and on any state, issues no status update to \<open>FAILED\<close>.
  Whenever a call inside a node raises \<open>e\<close> (the status update, the stage's executor,
  the quality check, the wait for the reviewer, or the final update to completed),
  the node catches it: it appends the stage's label followed by \<open>e\<close> to the state's
  errors, sets the current node to \<open>"error"\<close> and returns the state, having issued
  the status updates accepted before the raise and nothing else.
\<close>

theorem stage_failure_is_recorded_in_state:
  "(\<forall>f \<in> snd ` set graph_nodes. FAILED \<notin> set (issued (f sv st))) \<and>
   (\<forall>label done.
      node_failed label e st done =
        \<lparr> returned = ReturnsState,
          state_after = st\<lparr> errors := errors st @ [label @ e], current_node := ''error'' \<rparr>,
          issued = done \<rparr>) \<and>
   (update_job_status sv (job_id st) PLANNING = Inl e \<longrightarrow>
      query_understanding_node sv st = node_failed ''Query understanding failed: '' e st []) \<and>
   (update_job_status sv (job_id st) RETRIEVING = Inl e \<longrightarrow>
      retrieval_hub_node sv st = node_failed ''Retrieval failed: '' e st []) \<and>
   (update_job_status sv (job_id st) RETRIEVING = Inr () \<and>
    retrieve_sources sv (query st) (map_of (metadata st) ''research_plan'') (constraints st) =
      Inl e \<longrightarrow>
      retrieval_hub_node sv st = node_failed ''Retrieval failed: '' e st [RETRIEVING]) \<and>
   (update_job_status sv (job_id st) SYNTHESIZING = Inl e \<longrightarrow>
      evidence_synthesis_node sv st = node_failed ''Evidence synthesis failed: '' e st []) \<and>
   (update_job_status sv (job_id st) SYNTHESIZING = Inr () \<and>
    synthesize_evidence sv (sources st) (query st) = Inl e \<longrightarrow>
      evidence_synthesis_node sv st =
        node_failed ''Evidence synthesis failed: '' e st [SYNTHESIZING]) \<and>
   (update_job_status sv (job_id st) DRAFTING = Inl e \<longrightarrow>
      drafting_node sv st = node_failed ''Drafting failed: '' e st []) \<and>
   (update_job_status sv (job_id st) DRAFTING = Inr () \<and>
    create_draft sv (claims st) (sources st) (output_config st) = Inl e \<longrightarrow>
      drafting_node sv st = node_failed ''Drafting failed: '' e st [DRAFTING]) \<and>
   (update_job_status sv (job_id st) FACT_CHECKING = Inl e \<longrightarrow>
      fact_checking_node sv st = node_failed ''Fact checking failed: '' e st []) \<and>
   (update_job_status sv (job_id st) FACT_CHECKING = Inr () \<and>
    verify_claims sv (claims st) (sources st) = Inl e \<longrightarrow>
      fact_checking_node sv st = node_failed ''Fact checking failed: '' e st [FACT_CHECKING]) \<and>
   (update_job_status sv (job_id st) VISUALIZING = Inl e \<longrightarrow>
      visualization_node sv st = node_failed ''Visualization failed: '' e st []) \<and>
   (update_job_status sv (job_id st) VISUALIZING = Inr () \<and>
    create_visualizations sv (claims st) (sources st) = Inl e \<longrightarrow>
      visualization_node sv st = node_failed ''Visualization failed: '' e st [VISUALIZING]) \<and>
   (update_job_status sv (job_id st) REVIEWING = Inl e \<longrightarrow>
      review_gate_node sv st = node_failed ''Review gate failed: '' e st []) \<and>
   (update_job_status sv (job_id st) REVIEWING = Inr () \<and> quality_check sv st = Inl e \<longrightarrow>
      review_gate_node sv st = node_failed ''Review gate failed: '' e st [REVIEWING]) \<and>
   (wait_for_human_approval sv (job_id st) = Inl e \<longrightarrow>
      human_approval_node sv st = node_failed ''Human approval failed: '' e st []) \<and>
   (update_job_status sv (job_id st) FORMATTING = Inl e \<longrightarrow>
      formatting_node sv st = node_failed ''Formatting failed: '' e st []) \<and>
   (update_job_status sv (job_id st) FORMATTING = Inr () \<and>
    generate_report sv (map_of (metadata st) ''draft'') (claims st) (citations st)
      (artifacts st) (output_config st) = Inl e \<longrightarrow>
      formatting_node sv st = node_failed ''Formatting failed: '' e st [FORMATTING]) \<and>
   (\<forall>report.
      update_job_status sv (job_id st) FORMATTING = Inr () \<and>
      generate_report sv (map_of (metadata st) ''draft'') (claims st) (citations st)
        (artifacts st) (output_config st) = Inr report \<and>
      update_job_status sv (job_id st) COMPLETED = Inl e \<longrightarrow>
      formatting_node sv st =
        node_failed ''Formatting failed: '' e
          (st\<lparr> artifacts := artifacts st @ [report], current_node := ''formatting'' \<rparr>)
          [FORMATTING])"
proof -
  have never_failed: "\<forall>f \<in> snd ` set graph_nodes. FAILED \<notin> set (issued (f sv st))"
    by (simp add: graph_nodes_def node_inv_query_understanding [THEN conjunct1]
        node_inv_retrieval_hub [THEN conjunct1] node_inv_evidence_synthesis [THEN conjunct1]
        node_inv_drafting [THEN conjunct1] node_inv_fact_checking [THEN conjunct1]
        node_inv_visualization [THEN conjunct1] node_inv_review_gate [THEN conjunct1]
        node_inv_formatting [THEN conjunct1] node_inv_human_approval [THEN conjunct1])
  have handler: "\<forall>label done.
      node_failed label e st done =
        \<lparr> returned = ReturnsState,
          state_after = st\<lparr> errors := errors st @ [label @ e], current_node := ''error'' \<rparr>,
          issued = done \<rparr>"
    by (simp add: node_failed_def)
  have early: "update_job_status sv (job_id st) PLANNING = Inl e \<longrightarrow>
      query_understanding_node sv st = node_failed ''Query understanding failed: '' e st []"
    by (simp add: query_understanding_node_def)
  have pipeline:
    "(update_job_status sv (job_id st) RETRIEVING = Inl e \<longrightarrow>
        retrieval_hub_node sv st = node_failed ''Retrieval failed: '' e st []) \<and>
     (update_job_status sv (job_id st) RETRIEVING = Inr () \<and>
      retrieve_sources sv (query st) (map_of (metadata st) ''research_plan'') (constraints st) =
        Inl e \<longrightarrow>
        retrieval_hub_node sv st = node_failed ''Retrieval failed: '' e st [RETRIEVING]) \<and>
     (update_job_status sv (job_id st) SYNTHESIZING = Inl e \<longrightarrow>
        evidence_synthesis_node sv st = node_failed ''Evidence synthesis failed: '' e st []) \<and>
     (update_job_status sv (job_id st) SYNTHESIZING = Inr () \<and>
      synthesize_evidence sv (sources st) (query st) = Inl e \<longrightarrow>
        evidence_synthesis_node sv st =
          node_failed ''Evidence synthesis failed: '' e st [SYNTHESIZING]) \<and>
     (update_job_status sv (job_id st) DRAFTING = Inl e \<longrightarrow>
        drafting_node sv st = node_failed ''Drafting failed: '' e st []) \<and>
     (update_job_status sv (job_id st) DRAFTING = Inr () \<and>
      create_draft sv (claims st) (sources st) (output_config st) = Inl e \<longrightarrow>
        drafting_node sv st = node_failed ''Drafting failed: '' e st [DRAFTING]) \<and>
     (update_job_status sv (job_id st) FACT_CHECKING = Inl e \<longrightarrow>
        fact_checking_node sv st = node_failed ''Fact checking failed: '' e st []) \<and>
     (update_job_status sv (job_id st) FACT_CHECKING = Inr () \<and>
      verify_claims sv (claims st) (sources st) = Inl e \<longrightarrow>
        fact_checking_node sv st = node_failed ''Fact checking failed: '' e st [FACT_CHECKING]) \<and>
     (update_job_status sv (job_id st) VISUALIZING = Inl e \<longrightarrow>
        visualization_node sv st = node_failed ''Visualization failed: '' e st []) \<and>
     (update_job_status sv (job_id st) VISUALIZING = Inr () \<and>
      create_visualizations sv (claims st) (sources st) = Inl e \<longrightarrow>
        visualization_node sv st = node_failed ''Visualization failed: '' e st [VISUALIZING])"
    by (simp add: retrieval_hub_node_def evidence_synthesis_node_def drafting_node_def
        fact_checking_node_def visualization_node_def)
  have gates:
    "(update_job_status sv (job_id st) REVIEWING = Inl e \<longrightarrow>
        review_gate_node sv st = node_failed ''Review gate failed: '' e st []) \<and>
     (update_job_status sv (job_id st) REVIEWING = Inr () \<and> quality_check sv st = Inl e \<longrightarrow>
        review_gate_node sv st = node_failed ''Review gate failed: '' e st [REVIEWING]) \<and>
     (wait_for_human_approval sv (job_id st) = Inl e \<longrightarrow>
        human_approval_node sv st = node_failed ''Human approval failed: '' e st [])"
    by (simp add: review_gate_node_def human_approval_node_def)
  have formatting:
    "(update_job_status sv (job_id st) FORMATTING = Inl e \<longrightarrow>
        formatting_node sv st = node_failed ''Formatting failed: '' e st []) \<and>
     (update_job_status sv (job_id st) FORMATTING = Inr () \<and>
      generate_report sv (map_of (metadata st) ''draft'') (claims st) (citations st)
        (artifacts st) (output_config st) = Inl e \<longrightarrow>
        formatting_node sv st = node_failed ''Formatting failed: '' e st [FORMATTING]) \<and>
     (\<forall>report.
        update_job_status sv (job_id st) FORMATTING = Inr () \<and>
        generate_report sv (map_of (metadata st) ''draft'') (claims st) (citations st)
          (artifacts st) (output_config st) = Inr report \<and>
        update_job_status sv (job_id st) COMPLETED = Inl e \<longrightarrow>
        formatting_node sv st =
          node_failed ''Formatting failed: '' e
            (st\<lparr> artifacts := artifacts st @ [report], current_node := ''formatting'' \<rparr>)
            [FORMATTING])"
    by (simp add: formatting_node_def Let_def)
  from never_failed handler early pipeline gates formatting show ?thesis
    by - (elim conjE, (intro conjI; assumption))
qed

theorem stage_failure_is_recorded_in_state_witness:
  "fact_checking_node failing_fact_check sample_state =
     \<lparr> returned = ReturnsState,
       state_after = sample_state
         \<lparr> errors := errors sample_state @ [''Fact checking failed: boom''],
           current_node := ''error'' \<rparr>,
       issued = [FACT_CHECKING] \<rparr> \<and>
   review_gate_node failing_gates sample_state =
     \<lparr> returned = ReturnsState,
       state_after = sample_state
         \<lparr> errors := errors sample_state @ [''Review gate failed: no score''],
           current_node := ''error'' \<rparr>,
       issued = [REVIEWING] \<rparr> \<and>
   human_approval_node failing_gates sample_state =
     \<lparr> returned = ReturnsState,
       state_after = sample_state
         \<lparr> errors := errors sample_state @ [''Human approval failed: timeout''],
           current_node := ''error'' \<rparr>,
       issued = [] \<rparr> \<and>
   FAILED \<notin> set (issued (fact_checking_node failing_fact_check sample_state))"
proof -
  have h1: "update_job_status failing_fact_check (job_id sample_state) FACT_CHECKING = Inr () \<and>
      verify_claims failing_fact_check (claims sample_state) (sources sample_state) = Inl ''boom''"
    by (simp add: failing_fact_check_def sample_services_def)
  have h2: "update_job_status failing_gates (job_id sample_state) REVIEWING = Inr () \<and>
      quality_check failing_gates sample_state = Inl ''no score''"
    by (simp add: failing_gates_def sample_services_def)
  have h3: "wait_for_human_approval failing_gates (job_id sample_state) = Inl ''timeout''"
    by (simp add: failing_gates_def sample_services_def)
  have m: "fact_checking_node \<in> snd ` set graph_nodes"
    by (simp add: graph_nodes_def)
  note fc = stage_failure_is_recorded_in_state [of failing_fact_check sample_state "''boom''"]
  note rg = stage_failure_is_recorded_in_state [of failing_gates sample_state "''no score''"]
  note ha = stage_failure_is_recorded_in_state [of failing_gates sample_state "''timeout''"]
  have a: "FAILED \<notin> set (issued (fact_checking_node failing_fact_check sample_state))"
    using fc [THEN conjunct1] m by (rule bspec)
  note b = mp [OF fc [THEN conjunct2, THEN conjunct2, THEN conjunct2, THEN conjunct2,
      THEN conjunct2, THEN conjunct2, THEN conjunct2, THEN conjunct2,
      THEN conjunct2, THEN conjunct2, THEN conjunct1] h1]
  note b' = fc [THEN conjunct2, THEN conjunct1, rule_format,
      of "''Fact checking failed: ''" "[FACT_CHECKING]"]
  note c = mp [OF rg [THEN conjunct2, THEN conjunct2, THEN conjunct2, THEN conjunct2,
      THEN conjunct2, THEN conjunct2, THEN conjunct2, THEN conjunct2,
      THEN conjunct2, THEN conjunct2, THEN conjunct2, THEN conjunct2,
      THEN conjunct2, THEN conjunct2, THEN conjunct1] h2]
  note c' = rg [THEN conjunct2, THEN conjunct1, rule_format,
      of "''Review gate failed: ''" "[REVIEWING]"]
  note d = mp [OF ha [THEN conjunct2, THEN conjunct2, THEN conjunct2, THEN conjunct2,
      THEN conjunct2, THEN conjunct2, THEN conjunct2, THEN conjunct2,
      THEN conjunct2, THEN conjunct2, THEN conjunct2, THEN conjunct2,
      THEN conjunct2, THEN conjunct2, THEN conjunct2, THEN conjunct1] h3]
  note d' = ha [THEN conjunct2, THEN conjunct1, rule_format,
      of "''Human approval failed: ''" "[]"]
  show ?thesis
    unfolding b b' c c' d d' using a [unfolded b b'] by simp
qed

text \<open>
  C8. The claim is that a run whose quality check always returns 0.9 executes the
  eight stages up to formatting and ends completed. With services that all succeed
  and the score 0.9, the run executes the seven nodes up to the review gate and
  raises there: formatting is not executed and \<open>COMPLETED\<close> is never issued.
\<close>

theorem approved_run_never_reaches_formatting:
  "fst (start_workflow (sample_services 0.9 ''approve'') 20 0 ''impact of X'' None None) =
     Uncaught (RouteKeyError ''visualization'') \<and>
   trace (snd (start_workflow (sample_services 0.9 ''approve'') 20 0 ''impact of X'' None None)) =
     [''query_understanding'', ''retrieval_hub'', ''evidence_synthesis'', ''drafting'',
      ''fact_checking'', ''visualization'', ''review_gate''] \<and>
   status_log (snd (start_workflow (sample_services 0.9 ''approve'') 20 0 ''impact of X''
     None None)) =
     [PLANNING, RETRIEVING, SYNTHESIZING, DRAFTING, FACT_CHECKING, VISUALIZING, REVIEWING] \<and>
   ''formatting'' \<notin> set (trace (snd (start_workflow (sample_services 0.9 ''approve'') 20 0
     ''impact of X'' None None))) \<and>
   COMPLETED \<notin> set (status_log (snd (start_workflow (sample_services 0.9 ''approve'') 20 0
     ''impact of X'' None None)))"
  by (simp add: start_workflow_raises sample_run_current_node run_trace sample_run_status)

subsection \<open>The job endpoints\<close>

lemma jobs_carry_instructions: "jobs (carry_instructions b jid i) = jobs b"
  by (simp add: carry_instructions_def split: option.split)

lemma get_job_by_id_Some:
  "get_job_by_id b jid uid = Some job \<longleftrightarrow> jobs b jid = Some job \<and> owner_id job = uid"
  by (auto simp: get_job_by_id_def split: option.splits if_splits)

lemma failed_allowed: "transition_allowed s FAILED = (\<not> terminal_status s)"
  by (simp add: transition_allowed_def)

lemma leaves_awaiting_human:
  "transition_allowed AWAITING_HUMAN FORMATTING" "transition_allowed AWAITING_HUMAN DRAFTING"
  by (simp_all add: transition_allowed_def status_steps_def)

lemma route_review_accepted:
  assumes "route_review b jid i s = (Inr u, b')" and "jobs b jid = Some j"
  shows "jobs b' jid = Some (j\<lparr> job_state := s \<rparr>)"
  using assms
  by (auto simp: route_review_def store_job_status_def jobs_carry_instructions
      split: sum.splits if_splits)

text \<open>
  C5, as stated, fails. Cancelling a job that is drafting succeeds and leaves the job
  with the status failed, not cancelled.
\<close>

theorem cancel_of_drafting_job_sets_failed:
  "fst (cancel_job (sample_backend DRAFTING) 0 1) = Inr ''Job cancelled successfully'' \<and>
   map_option job_state (jobs (snd (cancel_job (sample_backend DRAFTING) 0 1)) 0) = Some FAILED \<and>
   map_option job_state (jobs (snd (cancel_job (sample_backend DRAFTING) 0 1)) 0) \<noteq>
     Some CANCELLED"
  by (simp add: cancel_job_def sample_backend_def get_job_by_id_def store_job_status_def
      cancel_workflow_def failed_allowed terminal_status_def Let_def)

text \<open>
  C5, amended. For a job found for the user: if its status is not terminal,
  cancelling asks the workflow to cancel and sets the job's status to failed. If its
  status is terminal, cancelling is rejected with an error and the job's record and
  the workflow states stay as they were: for completed and failed by the check of
  \<open>cancel_job\<close> itself (error 400, nothing has been done), for cancelled by the
  invalid-transition error of the status update (the workflow has been asked to
  cancel by then).
\<close>

theorem cancel_job_marks_failed:
  assumes "get_job_by_id b jid uid = Some job"
  shows "(\<not> terminal_status (job_state job) \<longrightarrow>
            fst (cancel_job b jid uid) = Inr ''Job cancelled successfully'' \<and>
            jobs (snd (cancel_job b jid uid)) jid = Some (job\<lparr> job_state := FAILED \<rparr>) \<and>
            cancel_requests (snd (cancel_job b jid uid)) = cancel_requests b @ [jid]) \<and>
         (job_state job = COMPLETED \<or> job_state job = FAILED \<longrightarrow>
            cancel_job b jid uid =
              (Inl (HTTPException 400 ''Cannot cancel completed or failed job''), b)) \<and>
         (job_state job = CANCELLED \<longrightarrow>
            cancel_job b jid uid =
              (Inl InvalidTransitionError, b\<lparr> cancel_requests := cancel_requests b @ [jid] \<rparr>))"
proof -
  from assms have j: "jobs b jid = Some job"
    by (simp add: get_job_by_id_Some)
  have live: "\<not> terminal_status (job_state job) \<longrightarrow>
            fst (cancel_job b jid uid) = Inr ''Job cancelled successfully'' \<and>
            jobs (snd (cancel_job b jid uid)) jid = Some (job\<lparr> job_state := FAILED \<rparr>) \<and>
            cancel_requests (snd (cancel_job b jid uid)) = cancel_requests b @ [jid]"
    using assms j
    by (auto simp: cancel_job_def store_job_status_def cancel_workflow_def failed_allowed
        terminal_status_def Let_def)
  have ended: "job_state job = COMPLETED \<or> job_state job = FAILED \<longrightarrow>
            cancel_job b jid uid =
              (Inl (HTTPException 400 ''Cannot cancel completed or failed job''), b)"
    using assms by (auto simp: cancel_job_def)
  have gone: "job_state job = CANCELLED \<longrightarrow>
            cancel_job b jid uid =
              (Inl InvalidTransitionError, b\<lparr> cancel_requests := cancel_requests b @ [jid] \<rparr>)"
    using assms j
    by (auto simp: cancel_job_def store_job_status_def cancel_workflow_def failed_allowed
        terminal_status_def Let_def)
  from live ended gone show ?thesis by blast
qed

theorem cancel_job_marks_failed_witness:
  "jobs (snd (cancel_job (sample_backend REVIEWING) 0 1)) 0 =
     Some \<lparr> owner_id = 1, job_state = FAILED \<rparr> \<and>
   cancel_job (sample_backend COMPLETED) 0 1 =
     (Inl (HTTPException 400 ''Cannot cancel completed or failed job''),
      sample_backend COMPLETED) \<and>
   fst (cancel_job (sample_backend CANCELLED) 0 1) = Inl InvalidTransitionError \<and>
   jobs (snd (cancel_job (sample_backend CANCELLED) 0 1)) = jobs (sample_backend CANCELLED)"
proof -
  have h1: "get_job_by_id (sample_backend REVIEWING) 0 1 =
      Some \<lparr> owner_id = 1, job_state = REVIEWING \<rparr>"
    by (simp add: get_job_by_id_def sample_backend_def)
  have h2: "get_job_by_id (sample_backend COMPLETED) 0 1 =
      Some \<lparr> owner_id = 1, job_state = COMPLETED \<rparr>"
    by (simp add: get_job_by_id_def sample_backend_def)
  have h3: "get_job_by_id (sample_backend CANCELLED) 0 1 =
      Some \<lparr> owner_id = 1, job_state = CANCELLED \<rparr>"
    by (simp add: get_job_by_id_def sample_backend_def)
  from cancel_job_marks_failed [OF h1] cancel_job_marks_failed [OF h2]
    cancel_job_marks_failed [OF h3]
  show ?thesis by (simp add: terminal_status_def)
qed

text \<open>
  C6. A review submitted for a job of the user that is not in \<open>awaiting_human\<close> fails
  with the conflict error and returns the backend as it was: job records and workflow
  states are unchanged. After a review that was accepted, any further review for the
  same job fails in the same way, since the accepted one has moved the job out of
  \<open>awaiting_human\<close>.
\<close>

theorem submit_review_conflict:
  "(get_job_by_id b jid uid = Some job \<and> job_state job \<noteq> AWAITING_HUMAN \<longrightarrow>
      submit_review b jid review_data uid = (Inl ConflictError, b)) \<and>
   (submit_review b jid review_data uid = (Inr msg, b') \<longrightarrow>
      submit_review b' jid review_data' uid = (Inl ConflictError, b'))"
proof (intro conjI impI)
  assume "get_job_by_id b jid uid = Some job \<and> job_state job \<noteq> AWAITING_HUMAN"
  then have "jobs b jid = Some job" and "job_state job \<noteq> AWAITING_HUMAN"
    and "get_job_by_id b jid uid = Some job"
    by (simp_all add: get_job_by_id_Some)
  then show "submit_review b jid review_data uid = (Inl ConflictError, b)"
    by (simp add: submit_review_def process_review_def)
next
  assume ok: "submit_review b jid review_data uid = (Inr msg, b')"
  then obtain j where j: "jobs b jid = Some j" "owner_id j = uid"
    by (auto simp: submit_review_def get_job_by_id_def split: option.splits if_splits)
  from ok j have "\<exists>s u. s \<noteq> AWAITING_HUMAN \<and>
      route_review b jid (map_of review_data ''instructions'') s = (Inr u, b')"
    by (auto simp: submit_review_def get_job_by_id_def process_review_def
        split: if_splits prod.splits sum.splits)
  then obtain s u where s: "s \<noteq> AWAITING_HUMAN"
    "route_review b jid (map_of review_data ''instructions'') s = (Inr u, b')"
    by blast
  from route_review_accepted [OF s(2) j(1)] have "jobs b' jid = Some (j\<lparr> job_state := s \<rparr>)" .
  with s(1) j(2) show "submit_review b' jid review_data' uid = (Inl ConflictError, b')"
    by (simp add: submit_review_def process_review_def get_job_by_id_def)
qed

theorem submit_review_conflict_witness:
  "submit_review (sample_backend DRAFTING) 0 [(''action'', PStr ''approve'')] 1 =
     (Inl ConflictError, sample_backend DRAFTING) \<and>
   submit_review
     (snd (submit_review (sample_backend AWAITING_HUMAN) 0 [(''action'', PStr ''approve'')] 1))
     0 [(''action'', PStr ''reject'')] 1 =
     (Inl ConflictError,
      snd (submit_review (sample_backend AWAITING_HUMAN) 0 [(''action'', PStr ''approve'')] 1))"
proof -
  have h1: "get_job_by_id (sample_backend DRAFTING) 0 1 =
      Some \<lparr> owner_id = 1, job_state = DRAFTING \<rparr> \<and>
      job_state \<lparr> owner_id = 1, job_state = DRAFTING \<rparr> \<noteq> AWAITING_HUMAN"
    by (simp add: get_job_by_id_def sample_backend_def)
  have h2: "submit_review (sample_backend AWAITING_HUMAN) 0 [(''action'', PStr ''approve'')] 1 =
      (Inr ''Review submitted successfully'',
       snd (submit_review (sample_backend AWAITING_HUMAN) 0 [(''action'', PStr ''approve'')] 1))"
    by (simp add: submit_review_def process_review_def route_review_def store_job_status_def
        carry_instructions_def get_job_by_id_def sample_backend_def leaves_awaiting_human)
  from submit_review_conflict [of "sample_backend DRAFTING" 0 1
      "\<lparr> owner_id = 1, job_state = DRAFTING \<rparr>" "[(''action'', PStr ''approve'')]"]
    h1
  have a: "submit_review (sample_backend DRAFTING) 0 [(''action'', PStr ''approve'')] 1 =
     (Inl ConflictError, sample_backend DRAFTING)"
    by blast
  from submit_review_conflict [of "sample_backend AWAITING_HUMAN" 0 1 _
      "[(''action'', PStr ''approve'')]" "''Review submitted successfully''" _
      "[(''action'', PStr ''reject'')]"] h2
  have "submit_review
     (snd (submit_review (sample_backend AWAITING_HUMAN) 0 [(''action'', PStr ''approve'')] 1))
     0 [(''action'', PStr ''reject'')] 1 =
     (Inl ConflictError,
      snd (submit_review (sample_backend AWAITING_HUMAN) 0 [(''action'', PStr ''approve'')] 1))"
    by blast
  with a show ?thesis by simp
qed

end
